theory Spec2Isabelle
  imports Complex_Main "HOL-Library.Word"
begin

section \<open>Constants of the sketch\<close>

text \<open>
  The sketch \<^verbatim>\<open>prueba_EndStop.c\<close> drives one stepper (the Z axis of a CNC shield) through
  the AccelStepper library. A C++ \<^verbatim>\<open>long\<close> is 32 bits wide on the Arduino targets; it is
  modelled as a 32-bit word, whose \<open>+\<close> and \<open>-\<close> wrap around as the compiled code does.
  The \<^verbatim>\<open>float\<close> constants are all exactly representable and are modelled as reals.
\<close>

type_synonym long = "32 word"

definition MOTOR_Z_STEP_PIN :: nat where
  "MOTOR_Z_STEP_PIN = 4"

definition MOTOR_Z_DIR_PIN :: nat where
  "MOTOR_Z_DIR_PIN = 7"

definition ENDSTOP_X_PIN :: nat where
  "ENDSTOP_X_PIN = 9"

definition ENDSTOP_Y_PIN :: nat where
  "ENDSTOP_Y_PIN = 10"

definition ENDSTOP_Z_PIN :: nat where
  "ENDSTOP_Z_PIN = 11"

text \<open>Arduino's two logic levels, the values \<^verbatim>\<open>digitalRead\<close> returns.\<close>

definition HIGH :: int where
  "HIGH = 1"

definition LOW :: int where
  "LOW = 0"

definition MICROSTEPS_PER_REVOLUTION :: long where
  "MICROSTEPS_PER_REVOLUTION = 800"

definition TARGET_REVOLUTIONS :: real where
  "TARGET_REVOLUTIONS = 0.5"

text \<open>The conversion of a \<^verbatim>\<open>float\<close> to a \<^verbatim>\<open>long\<close> truncates towards zero.\<close>

definition float_to_long :: "real \<Rightarrow> long" where
  "float_to_long x = word_of_int (if 0 \<le> x then \<lfloor>x\<rfloor> else \<lceil>x\<rceil>)"

definition TARGET_MICROSTEPS :: long where
  "TARGET_MICROSTEPS =
     float_to_long (TARGET_REVOLUTIONS * real_of_int (sint MICROSTEPS_PER_REVOLUTION))"

definition MAX_DISTANCE :: long where
  "MAX_DISTANCE = 1000000"

definition MAX_SPEED :: real where
  "MAX_SPEED = 500"

definition ACCELERATION :: real where
  "ACCELERATION = 10000"

definition CRUISE_SPEED :: real where
  "CRUISE_SPEED = 500"

section \<open>The driver and the outside world\<close>

text \<open>
  AccelStepper is a library, not part of the sketch. The methods the sketch calls are taken
  as a parameter: a record of operations on a driver state of any type \<open>'d\<close>. Whatever a
  method reads besides the object (the clock, in \<^verbatim>\<open>run\<close>) can be carried inside \<open>'d\<close>,
  so functions of the driver state lose no generality. \<open>targetPosition\<close> is the library's
  accessor of the target; the sketch never calls it, the properties below observe it.
\<close>

record 'd stepper =
  setMaxSpeed :: "real \<Rightarrow> 'd \<Rightarrow> 'd"
  setAcceleration :: "real \<Rightarrow> 'd \<Rightarrow> 'd"
  setSpeed :: "real \<Rightarrow> 'd \<Rightarrow> 'd"
  setCurrentPosition :: "long \<Rightarrow> 'd \<Rightarrow> 'd"
  moveTo :: "long \<Rightarrow> 'd \<Rightarrow> 'd"
  stop :: "'d \<Rightarrow> 'd"
  run :: "'d \<Rightarrow> 'd"
  currentPosition :: "'d \<Rightarrow> long"
  distanceToGo :: "'d \<Rightarrow> long"
  targetPosition :: "'d \<Rightarrow> long"

text \<open>
  The three lines the sketch prints. Their text is Spanish with non-ASCII letters
  and plays no part in the control flow, so a line is named rather than spelled:
  the start-up banner, the line of the end-stop branch and the line of the arrival branch.
\<close>

datatype message = Msg_Init | Msg_Endstop | Msg_Arrival

datatype pin_mode = INPUT | OUTPUT

text \<open>
  Every call that leaves the sketch, in program order: the serial port, the pins and the
  methods of \<^verbatim>\<open>stepperZ\<close> (with their arguments).
\<close>

datatype event =
    SerialBegin nat
  | SerialPrintln message
  | PinMode nat pin_mode
  | DigitalRead nat
  | SetMaxSpeed real
  | SetAcceleration real
  | SetSpeed real
  | SetCurrentPosition long
  | MoveTo long
  | Stop
  | CurrentPosition
  | DistanceToGo
  | Run

text \<open>
  The globals the sketch uses: the direction flag and the object \<^verbatim>\<open>stepperZ\<close>
  (\<^verbatim>\<open>stepperX\<close> and \<^verbatim>\<open>stepperY\<close> are constructed and never touched).
  \<open>events\<close> is the history of outside calls made so far.
\<close>

record 'd state =
  movingForward :: bool
  stepperZ :: 'd
  events :: "event list"

definition emit :: "event \<Rightarrow> 'd state \<Rightarrow> 'd state" where
  "emit e s = s\<lparr>events := events s @ [e]\<rparr>"

definition call :: "event \<Rightarrow> ('d \<Rightarrow> 'd) \<Rightarrow> 'd state \<Rightarrow> 'd state" where
  "call e f s = s\<lparr>stepperZ := f (stepperZ s), events := events s @ [e]\<rparr>"

section \<open>The sketch\<close>

text \<open>
  The globals as their initialisers leave them: \<^verbatim>\<open>bool movingForward = false\<close>, and
  \<^verbatim>\<open>stepperZ\<close> as its constructor built it (\<open>d0\<close>).
\<close>

definition boot :: "'d \<Rightarrow> 'd state" where
  "boot d0 = \<lparr>movingForward = False, stepperZ = d0, events = []\<rparr>"

text \<open>The function \<^verbatim>\<open>setup()\<close>; its name is a keyword of Isabelle, hence the suffix.\<close>

definition setup_sketch :: "'d stepper \<Rightarrow> 'd state \<Rightarrow> 'd state" where
  "setup_sketch drv s =
    (let s1 = emit (SerialBegin 9600) s;
         s2 = emit (SerialPrintln Msg_Init) s1;
         s3 = emit (PinMode ENDSTOP_Z_PIN INPUT) s2;
         s4 = call (SetMaxSpeed MAX_SPEED) (setMaxSpeed drv MAX_SPEED) s3;
         s5 = call (SetAcceleration ACCELERATION) (setAcceleration drv ACCELERATION) s4;
         s6 = call (SetSpeed CRUISE_SPEED) (setSpeed drv CRUISE_SPEED) s5;
         s7 = call (SetCurrentPosition 0) (setCurrentPosition drv 0) s6
     in call (MoveTo (- MAX_DISTANCE)) (moveTo drv (- MAX_DISTANCE)) s7)"

text \<open>
  The \<^verbatim>\<open>if\<close> / \<^verbatim>\<open>else if\<close> of \<^verbatim>\<open>loop\<close>. \<open>rd\<close> gives the level of every pin at this
  iteration. \<^verbatim>\<open>bool endstopHit = digitalRead(...)\<close> is true for any non-zero level, and
  \<^verbatim>\<open>endstopHit == LOW\<close> compares the promoted boolean with 0. The \<^verbatim>\<open>&&\<close> of the second
  condition calls \<^verbatim>\<open>distanceToGo\<close> only when the flag is set.
\<close>

definition decision_rule :: "'d stepper \<Rightarrow> (nat \<Rightarrow> int) \<Rightarrow> 'd state \<Rightarrow> 'd state" where
  "decision_rule drv rd s =
    (let s0 = emit (DigitalRead ENDSTOP_Z_PIN) s;
         endstopHit = (rd ENDSTOP_Z_PIN \<noteq> 0)
     in if \<not> movingForward s0 \<and> (of_bool endstopHit :: int) = LOW then
          (let s1 = emit (SerialPrintln Msg_Endstop) s0;
               s2 = call Stop (stop drv) s1;
               s3 = s2\<lparr>movingForward := True\<rparr>;
               s4 = emit CurrentPosition s3;
               forwardPosition = currentPosition drv (stepperZ s4) + MAX_DISTANCE
           in call (MoveTo forwardPosition) (moveTo drv forwardPosition) s4)
        else if movingForward s0 then
          (let s1 = emit DistanceToGo s0
           in if distanceToGo drv (stepperZ s1) = 0 then
                (let s2 = emit (SerialPrintln Msg_Arrival) s1;
                     s3 = s2\<lparr>movingForward := False\<rparr>;
                     s4 = emit CurrentPosition s3;
                     backPosition = currentPosition drv (stepperZ s4) - MAX_DISTANCE
                 in call (MoveTo backPosition) (moveTo drv backPosition) s4)
              else s1)
        else s0)"

text \<open>One iteration of \<^verbatim>\<open>loop\<close>: the decision, then \<^verbatim>\<open>stepperZ.run()\<close>.\<close>

definition loop :: "'d stepper \<Rightarrow> (nat \<Rightarrow> int) \<Rightarrow> 'd state \<Rightarrow> 'd state" where
  "loop drv rd s = call Run (run drv) (decision_rule drv rd s)"

text \<open>
  The Arduino core calls \<^verbatim>\<open>setup\<close> once and then \<^verbatim>\<open>loop\<close> for ever; \<open>run_loop\<close> is any
  finite number of iterations, one pin reading for each.
\<close>

primrec run_loop :: "'d stepper \<Rightarrow> (nat \<Rightarrow> int) list \<Rightarrow> 'd state \<Rightarrow> 'd state" where
  "run_loop drv [] s = s"
| "run_loop drv (rd # rds) s = run_loop drv rds (loop drv rd s)"

definition program :: "'d stepper \<Rightarrow> 'd \<Rightarrow> (nat \<Rightarrow> int) list \<Rightarrow> 'd state" where
  "program drv d0 rds = run_loop drv rds (setup_sketch drv (boot d0))"

section \<open>What the properties speak about\<close>

text \<open>The outside calls made between a state and a later one.\<close>

definition new_events :: "'d state \<Rightarrow> 'd state \<Rightarrow> event list" where
  "new_events s s' = drop (length (events s)) (events s')"

text \<open>
  What the properties that speak of the driver's target or position rely on, for any driver:
  \<^verbatim>\<open>moveTo\<close> records the target and leaves the position alone,
  \<^verbatim>\<open>setCurrentPosition\<close> sets the position counter, \<^verbatim>\<open>run\<close> keeps the target, and
  \<^verbatim>\<open>distanceToGo\<close> is the signed distance from the position to the target.
  Nothing is asked of \<^verbatim>\<open>stop\<close>, nor of what \<^verbatim>\<open>run\<close> does to the position.
\<close>

definition driver_contract :: "'d stepper \<Rightarrow> bool" where
  "driver_contract drv \<longleftrightarrow>
     (\<forall>p d. targetPosition drv (moveTo drv p d) = p) \<and>
     (\<forall>p d. currentPosition drv (moveTo drv p d) = currentPosition drv d) \<and>
     (\<forall>v d. currentPosition drv (setCurrentPosition drv v d) = v) \<and>
     (\<forall>d. targetPosition drv (run drv d) = targetPosition drv d) \<and>
     (\<forall>d. distanceToGo drv d = targetPosition drv d - currentPosition drv d)"

text \<open>
  The position at the last forward transition and the position at the last retraction
  transition (or at initialisation, before any). An iteration is
  a transition when it changes \<open>movingForward\<close>; the position at a transition is the one
  the sketch reads from the driver on that iteration: after \<^verbatim>\<open>stop()\<close> when it turns
  forward, as the iteration found the driver when it turns to retract.
\<close>

record transitions =
  last_forward :: "long option"
  last_retract :: long

definition at_start :: "'d stepper \<Rightarrow> 'd state \<Rightarrow> transitions" where
  "at_start drv s = \<lparr>last_forward = None, last_retract = currentPosition drv (stepperZ s)\<rparr>"

definition note_transition ::
  "'d stepper \<Rightarrow> (nat \<Rightarrow> int) \<Rightarrow> 'd state \<Rightarrow> transitions \<Rightarrow> transitions" where
  "note_transition drv rd s tr =
     (if movingForward (loop drv rd s) = movingForward s then tr
      else if movingForward s then tr\<lparr>last_retract := currentPosition drv (stepperZ s)\<rparr>
      else tr\<lparr>last_forward := Some (currentPosition drv (stop drv (stepperZ s)))\<rparr>)"

primrec transitions_of ::
  "'d stepper \<Rightarrow> (nat \<Rightarrow> int) list \<Rightarrow> 'd state \<Rightarrow> transitions \<Rightarrow> transitions" where
  "transitions_of drv [] s tr = tr"
| "transitions_of drv (rd # rds) s tr =
     transitions_of drv rds (loop drv rd s) (note_transition drv rd s tr)"

text \<open>The relation between the direction flag and the driver's target.\<close>

definition dir_target_inv :: "'d stepper \<Rightarrow> transitions \<Rightarrow> 'd state \<Rightarrow> bool" where
  "dir_target_inv drv tr s \<longleftrightarrow>
     (if movingForward s
      then (case last_forward tr of
              Some p \<Rightarrow> targetPosition drv (stepperZ s) = p + MAX_DISTANCE
            | None \<Rightarrow> False)
      else targetPosition drv (stepperZ s) = last_retract tr - MAX_DISTANCE)"

text \<open>
  A run of iterations on each of which, as the iteration starts, the end stop reads
  clear and the distance to go is positive.
\<close>

primrec noop_ticks :: "'d stepper \<Rightarrow> (nat \<Rightarrow> int) list \<Rightarrow> 'd state \<Rightarrow> bool" where
  "noop_ticks drv [] s = True"
| "noop_ticks drv (rd # rds) s =
     (rd ENDSTOP_Z_PIN \<noteq> LOW \<and> 0 < sint (distanceToGo drv (stepperZ s)) \<and>
      noop_ticks drv rds (loop drv rd s))"

subsection \<open>A driver to run the sketch on\<close>

text \<open>
  A driver without a velocity profile: a position and a target, \<^verbatim>\<open>run\<close> takes one step
  towards the target, \<^verbatim>\<open>stop\<close> makes the position the target. It meets the contract above
  and serves where the sketch is run on concrete inputs.
\<close>

record unit_stepper =
  pos :: long
  tgt :: long

definition unit_run :: "unit_stepper \<Rightarrow> unit_stepper" where
  "unit_run d =
     (if tgt d = pos d then d
      else if 0 < sint (tgt d - pos d) then d\<lparr>pos := pos d + 1\<rparr>
      else d\<lparr>pos := pos d - 1\<rparr>)"

definition unit_driver :: "unit_stepper stepper" where
  "unit_driver =
     \<lparr>setMaxSpeed = (\<lambda>_ d. d),
      setAcceleration = (\<lambda>_ d. d),
      setSpeed = (\<lambda>_ d. d),
      setCurrentPosition = (\<lambda>v d. d\<lparr>pos := v, tgt := v\<rparr>),
      moveTo = (\<lambda>p d. d\<lparr>tgt := p\<rparr>),
      stop = (\<lambda>d. d\<lparr>tgt := pos d\<rparr>),
      run = unit_run,
      currentPosition = pos,
      distanceToGo = (\<lambda>d. tgt d - pos d),
      targetPosition = tgt\<rparr>"

section \<open>Basic facts\<close>

lemma unit_driver_contract: "driver_contract unit_driver"
  by (simp add: driver_contract_def unit_driver_def unit_run_def)

lemma TARGET_MICROSTEPS_value: "TARGET_MICROSTEPS = 400"
  by (simp add: TARGET_MICROSTEPS_def float_to_long_def TARGET_REVOLUTIONS_def
      MICROSTEPS_PER_REVOLUTION_def)

text \<open>The four ways through the decision.\<close>

lemma decision_endstop:
  assumes "\<not> movingForward s" and "rd ENDSTOP_Z_PIN = LOW"
  shows "decision_rule drv rd s =
     \<lparr>movingForward = True,
      stepperZ = moveTo drv (currentPosition drv (stop drv (stepperZ s)) + MAX_DISTANCE)
                   (stop drv (stepperZ s)),
      events = events s @ [DigitalRead ENDSTOP_Z_PIN, SerialPrintln Msg_Endstop, Stop,
                 CurrentPosition,
                 MoveTo (currentPosition drv (stop drv (stepperZ s)) + MAX_DISTANCE)]\<rparr>"
  using assms by (simp add: decision_rule_def emit_def call_def LOW_def Let_def)

lemma decision_arrival:
  assumes "movingForward s" and "distanceToGo drv (stepperZ s) = 0"
  shows "decision_rule drv rd s =
     \<lparr>movingForward = False,
      stepperZ = moveTo drv (currentPosition drv (stepperZ s) - MAX_DISTANCE) (stepperZ s),
      events = events s @ [DigitalRead ENDSTOP_Z_PIN, DistanceToGo, SerialPrintln Msg_Arrival,
                 CurrentPosition,
                 MoveTo (currentPosition drv (stepperZ s) - MAX_DISTANCE)]\<rparr>"
  using assms by (simp add: decision_rule_def emit_def call_def LOW_def Let_def)

lemma decision_retract_clear:
  assumes "\<not> movingForward s" and "rd ENDSTOP_Z_PIN \<noteq> LOW"
  shows "decision_rule drv rd s = s\<lparr>events := events s @ [DigitalRead ENDSTOP_Z_PIN]\<rparr>"
  using assms by (simp add: decision_rule_def emit_def call_def LOW_def Let_def)

lemma decision_advance_underway:
  assumes "movingForward s" and "distanceToGo drv (stepperZ s) \<noteq> 0"
  shows "decision_rule drv rd s =
           s\<lparr>events := events s @ [DigitalRead ENDSTOP_Z_PIN, DistanceToGo]\<rparr>"
  using assms by (simp add: decision_rule_def emit_def call_def LOW_def Let_def)

lemma setup_sketch_eq:
  "setup_sketch drv s =
     \<lparr>movingForward = movingForward s,
      stepperZ = moveTo drv (- MAX_DISTANCE) (setCurrentPosition drv 0
                   (setSpeed drv CRUISE_SPEED (setAcceleration drv ACCELERATION
                     (setMaxSpeed drv MAX_SPEED (stepperZ s))))),
      events = events s @ [SerialBegin 9600, SerialPrintln Msg_Init, PinMode ENDSTOP_Z_PIN INPUT,
                 SetMaxSpeed MAX_SPEED, SetAcceleration ACCELERATION, SetSpeed CRUISE_SPEED,
                 SetCurrentPosition 0, MoveTo (- MAX_DISTANCE)]\<rparr>"
  by (simp add: setup_sketch_def emit_def call_def Let_def)

text \<open>The decision itself never calls \<^verbatim>\<open>run()\<close>.\<close>

lemma decision_events:
  "\<exists>es. events (decision_rule drv rd s) = events s @ es \<and> Run \<notin> set es"
  by (simp add: decision_rule_def emit_def call_def Let_def)

lemma loop_noop_flag:
  assumes "rd ENDSTOP_Z_PIN \<noteq> LOW" and "distanceToGo drv (stepperZ s) \<noteq> 0"
  shows "movingForward (loop drv rd s) = movingForward s"
proof (cases "movingForward s")
  case True
  with assms show ?thesis by (simp add: loop_def decision_advance_underway call_def)
next
  case False
  with assms show ?thesis by (simp add: loop_def decision_retract_clear call_def)
qed

text \<open>The direction/target relation: established by initialisation, kept by an iteration.\<close>

lemma setup_establishes_inv:
  assumes "driver_contract drv"
  shows "dir_target_inv drv (at_start drv (setup_sketch drv (boot d0)))
           (setup_sketch drv (boot d0))"
  using assms
  by (simp add: dir_target_inv_def at_start_def setup_sketch_eq boot_def driver_contract_def)

lemma loop_preserves_inv:
  assumes c: "driver_contract drv" and inv: "dir_target_inv drv tr s"
  shows "dir_target_inv drv (note_transition drv rd s tr) (loop drv rd s)"
proof -
  from c have keep: "\<And>d. targetPosition drv (run drv d) = targetPosition drv d"
    and goal: "\<And>p d. targetPosition drv (moveTo drv p d) = p"
    by (simp_all add: driver_contract_def)
  consider (endstop) "\<not> movingForward s" "rd ENDSTOP_Z_PIN = LOW"
    | (arrival) "movingForward s" "distanceToGo drv (stepperZ s) = 0"
    | (retract) "\<not> movingForward s" "rd ENDSTOP_Z_PIN \<noteq> LOW"
    | (advance) "movingForward s" "distanceToGo drv (stepperZ s) \<noteq> 0"
    by blast
  then show ?thesis
  proof cases
    case endstop
    then show ?thesis
      by (simp add: dir_target_inv_def note_transition_def loop_def decision_endstop call_def
          keep goal)
  next
    case arrival
    then show ?thesis
      by (simp add: dir_target_inv_def note_transition_def loop_def decision_arrival call_def
          keep goal)
  next
    case retract
    with inv show ?thesis
      by (simp add: dir_target_inv_def note_transition_def loop_def decision_retract_clear
          call_def keep split: option.splits)
  next
    case advance
    with inv show ?thesis
      by (simp add: dir_target_inv_def note_transition_def loop_def decision_advance_underway
          call_def keep split: option.splits)
  qed
qed

lemma run_loop_preserves_inv:
  assumes "driver_contract drv" and "dir_target_inv drv tr s"
  shows "dir_target_inv drv (transitions_of drv rds s tr) (run_loop drv rds s)"
  using assms(2)
proof (induction rds arbitrary: s tr)
  case Nil
  then show ?case by simp
next
  case (Cons rd rds)
  have "dir_target_inv drv (note_transition drv rd s tr) (loop drv rd s)"
    using assms(1) Cons.prems by (rule loop_preserves_inv)
  then show ?case by (simp add: Cons.IH)
qed

text \<open>The equations that run the sketch on the step-by-step driver.\<close>

lemmas run_defs = loop_def decision_rule_def emit_def call_def Let_def unit_driver_def
  unit_run_def HIGH_def LOW_def MAX_DISTANCE_def ENDSTOP_Z_PIN_def

section \<open>Initialisation\<close>

text \<open>
  Claim C4. After initialisation (the global initialisers, then \<^verbatim>\<open>setup()\<close>) the flag
  \<open>movingForward\<close> is false, and for a driver that meets the contract the position
  reference is 0 and the target is \<open>- MAX_DISTANCE\<close>, that is minus one million as a
  signed value.
\<close>

theorem initial_state:
  assumes "driver_contract drv"
  shows "movingForward (setup_sketch drv (boot d0)) = False \<and>
         currentPosition drv (stepperZ (setup_sketch drv (boot d0))) = 0 \<and>
         targetPosition drv (stepperZ (setup_sketch drv (boot d0))) = - MAX_DISTANCE \<and>
         sint (targetPosition drv (stepperZ (setup_sketch drv (boot d0)))) = - 1000000"
  using assms by (simp add: setup_sketch_eq boot_def driver_contract_def MAX_DISTANCE_def)

theorem initial_state_witness:
  "driver_contract unit_driver \<and>
   movingForward (setup_sketch unit_driver (boot \<lparr>pos = 42, tgt = 17\<rparr>)) = False \<and>
   stepperZ (setup_sketch unit_driver (boot \<lparr>pos = 42, tgt = 17\<rparr>)) =
     \<lparr>pos = 0, tgt = - 1000000\<rparr>"
  using initial_state [OF unit_driver_contract, of "\<lparr>pos = 42, tgt = 17\<rparr>"]
    unit_driver_contract
  by (simp add: setup_sketch_eq boot_def unit_driver_def MAX_DISTANCE_def)

section \<open>The two reversals\<close>

text \<open>
  Claim C1. On an iteration that starts with \<open>movingForward\<close> false and reads the end-stop
  pin LOW, the sketch calls \<^verbatim>\<open>stop()\<close>, sets \<open>movingForward\<close>, reads the position from the
  driver as \<^verbatim>\<open>stop()\<close> left it, and calls \<^verbatim>\<open>moveTo\<close> with that position plus
  \<open>MAX_DISTANCE\<close>; \<^verbatim>\<open>run()\<close> follows. For a driver that meets the contract the target
  after the iteration is that sum.
\<close>

theorem endstop_reversal:
  assumes "\<not> movingForward s" and "rd ENDSTOP_Z_PIN = LOW"
  shows "loop drv rd s =
     \<lparr>movingForward = True,
      stepperZ = run drv (moveTo drv (currentPosition drv (stop drv (stepperZ s)) + MAX_DISTANCE)
                   (stop drv (stepperZ s))),
      events = events s @ [DigitalRead ENDSTOP_Z_PIN, SerialPrintln Msg_Endstop, Stop,
                 CurrentPosition,
                 MoveTo (currentPosition drv (stop drv (stepperZ s)) + MAX_DISTANCE), Run]\<rparr> \<and>
     (driver_contract drv \<longrightarrow>
        targetPosition drv (stepperZ (loop drv rd s)) =
          currentPosition drv (stop drv (stepperZ s)) + MAX_DISTANCE)"
  using assms by (simp add: loop_def decision_endstop call_def driver_contract_def)

theorem endstop_reversal_witness:
  "\<not> movingForward
       \<lparr>movingForward = False, stepperZ = \<lparr>pos = - 7, tgt = - 1000000\<rparr>, events = []\<rparr> \<and>
   (\<lambda>_. LOW) ENDSTOP_Z_PIN = LOW \<and> driver_contract unit_driver \<and>
   loop unit_driver (\<lambda>_. LOW)
      \<lparr>movingForward = False, stepperZ = \<lparr>pos = - 7, tgt = - 1000000\<rparr>, events = []\<rparr> =
     \<lparr>movingForward = True, stepperZ = \<lparr>pos = - 6, tgt = 999993\<rparr>,
      events = [DigitalRead 11, SerialPrintln Msg_Endstop, Stop, CurrentPosition,
                MoveTo 999993, Run]\<rparr>"
  using endstop_reversal
      [of "\<lparr>movingForward = False, stepperZ = \<lparr>pos = - 7, tgt = - 1000000\<rparr>, events = []\<rparr>"
        "\<lambda>_. LOW" unit_driver]
    unit_driver_contract
  by (simp add: unit_driver_def unit_run_def MAX_DISTANCE_def ENDSTOP_Z_PIN_def)

text \<open>
  Claim C5. On an iteration that starts with \<open>movingForward\<close> true and
  \<^verbatim>\<open>distanceToGo()\<close> zero, whatever the end-stop pin reads, the sketch clears
  \<open>movingForward\<close>, reads the position and calls \<^verbatim>\<open>moveTo\<close> with that position minus
  \<open>MAX_DISTANCE\<close>; \<^verbatim>\<open>run()\<close> follows and \<^verbatim>\<open>stop()\<close> is not called. For a driver that
  meets the contract the target after the iteration is that difference.
\<close>

theorem arrival_reversal:
  assumes "movingForward s" and "distanceToGo drv (stepperZ s) = 0"
  shows "loop drv rd s =
     \<lparr>movingForward = False,
      stepperZ = run drv (moveTo drv (currentPosition drv (stepperZ s) - MAX_DISTANCE)
                   (stepperZ s)),
      events = events s @ [DigitalRead ENDSTOP_Z_PIN, DistanceToGo, SerialPrintln Msg_Arrival,
                 CurrentPosition,
                 MoveTo (currentPosition drv (stepperZ s) - MAX_DISTANCE), Run]\<rparr> \<and>
     Stop \<notin> set (new_events s (loop drv rd s)) \<and>
     (driver_contract drv \<longrightarrow>
        targetPosition drv (stepperZ (loop drv rd s)) =
          currentPosition drv (stepperZ s) - MAX_DISTANCE)"
proof -
  let ?bp = "currentPosition drv (stepperZ s) - MAX_DISTANCE"
  have step: "loop drv rd s =
     \<lparr>movingForward = False,
      stepperZ = run drv (moveTo drv ?bp (stepperZ s)),
      events = events s @ [DigitalRead ENDSTOP_Z_PIN, DistanceToGo, SerialPrintln Msg_Arrival,
                 CurrentPosition, MoveTo ?bp, Run]\<rparr>"
    using assms by (simp add: loop_def decision_arrival call_def)
  have no_stop: "Stop \<notin> set (new_events s (loop drv rd s))"
    by (simp add: step new_events_def)
  have target: "targetPosition drv (stepperZ (loop drv rd s)) = ?bp" if "driver_contract drv"
    using that by (simp add: step driver_contract_def)
  from step no_stop target show ?thesis by blast
qed

theorem arrival_reversal_witness:
  "movingForward
       \<lparr>movingForward = True, stepperZ = \<lparr>pos = 12, tgt = 12\<rparr>, events = []\<rparr> \<and>
   distanceToGo unit_driver \<lparr>pos = 12, tgt = 12\<rparr> = 0 \<and> driver_contract unit_driver \<and>
   loop unit_driver (\<lambda>_. HIGH)
      \<lparr>movingForward = True, stepperZ = \<lparr>pos = 12, tgt = 12\<rparr>, events = []\<rparr> =
     \<lparr>movingForward = False, stepperZ = \<lparr>pos = 11, tgt = - 999988\<rparr>,
      events = [DigitalRead 11, DistanceToGo, SerialPrintln Msg_Arrival, CurrentPosition,
                MoveTo (- 999988), Run]\<rparr>"
  using arrival_reversal
      [of "\<lparr>movingForward = True, stepperZ = \<lparr>pos = 12, tgt = 12\<rparr>, events = []\<rparr>"
        unit_driver "\<lambda>_. HIGH"]
    unit_driver_contract
  by (simp add: unit_driver_def unit_run_def MAX_DISTANCE_def ENDSTOP_Z_PIN_def)

text \<open>
  Claim C6. On an iteration where the condition of the first rule holds (\<open>movingForward\<close>
  false, end stop LOW) and the driver also reports arrival (\<^verbatim>\<open>distanceToGo()\<close> zero),
  the first rule fires and the second is skipped: the iteration ends with
  \<open>movingForward\<close> true, its outside calls are exactly those of the end-stop branch
  followed by \<^verbatim>\<open>run()\<close>, \<^verbatim>\<open>distanceToGo()\<close> is not even asked, the arrival line is not
  printed, and the only \<^verbatim>\<open>moveTo\<close> is the forward one. This holds whatever the driver
  reports after the re-targeting, although \<open>movingForward\<close> is true by then.
\<close>

theorem endstop_has_priority:
  assumes "\<not> movingForward s" and "rd ENDSTOP_Z_PIN = LOW"
    and "distanceToGo drv (stepperZ s) = 0"
  shows "movingForward (loop drv rd s) \<and>
     new_events s (loop drv rd s) =
       [DigitalRead ENDSTOP_Z_PIN, SerialPrintln Msg_Endstop, Stop, CurrentPosition,
        MoveTo (currentPosition drv (stop drv (stepperZ s)) + MAX_DISTANCE), Run] \<and>
     stepperZ (loop drv rd s) =
       run drv (moveTo drv (currentPosition drv (stop drv (stepperZ s)) + MAX_DISTANCE)
                   (stop drv (stepperZ s))) \<and>
     DistanceToGo \<notin> set (new_events s (loop drv rd s)) \<and>
     SerialPrintln Msg_Arrival \<notin> set (new_events s (loop drv rd s)) \<and>
     [p. MoveTo p \<leftarrow> new_events s (loop drv rd s)] =
       [currentPosition drv (stop drv (stepperZ s)) + MAX_DISTANCE]"
  using assms by (simp add: loop_def decision_endstop call_def new_events_def)

theorem endstop_has_priority_witness:
  "\<not> movingForward
       \<lparr>movingForward = False, stepperZ = \<lparr>pos = 5, tgt = 5\<rparr>, events = []\<rparr> \<and>
   (\<lambda>_. LOW) ENDSTOP_Z_PIN = LOW \<and>
   distanceToGo unit_driver \<lparr>pos = 5, tgt = 5\<rparr> = 0 \<and>
   loop unit_driver (\<lambda>_. LOW)
      \<lparr>movingForward = False, stepperZ = \<lparr>pos = 5, tgt = 5\<rparr>, events = []\<rparr> =
     \<lparr>movingForward = True, stepperZ = \<lparr>pos = 6, tgt = 1000005\<rparr>,
      events = [DigitalRead 11, SerialPrintln Msg_Endstop, Stop, CurrentPosition,
                MoveTo 1000005, Run]\<rparr>"
  using endstop_has_priority
      [of "\<lparr>movingForward = False, stepperZ = \<lparr>pos = 5, tgt = 5\<rparr>, events = []\<rparr>"
        "\<lambda>_. LOW" unit_driver]
  by (simp add: run_defs new_events_def)

section \<open>Iterations that do not reverse\<close>

text \<open>
  Claim C7. On an iteration that starts with \<open>movingForward\<close> false and reads the end-stop
  pin at any level other than LOW, the decision leaves \<open>movingForward\<close> and the driver
  (so its target too) as they were and makes no outside call but the pin read; the
  iteration as a whole changes the driver by the final \<^verbatim>\<open>run()\<close> alone.
\<close>

theorem retract_clear_no_reversal:
  assumes "\<not> movingForward s" and "rd ENDSTOP_Z_PIN \<noteq> LOW"
  shows "movingForward (decision_rule drv rd s) = movingForward s \<and>
         stepperZ (decision_rule drv rd s) = stepperZ s \<and>
         targetPosition drv (stepperZ (decision_rule drv rd s)) =
           targetPosition drv (stepperZ s) \<and>
         new_events s (decision_rule drv rd s) = [DigitalRead ENDSTOP_Z_PIN] \<and>
         loop drv rd s =
           s\<lparr>stepperZ := run drv (stepperZ s),
              events := events s @ [DigitalRead ENDSTOP_Z_PIN, Run]\<rparr>"
  using assms by (simp add: loop_def decision_retract_clear call_def new_events_def)

theorem retract_clear_no_reversal_witness:
  "\<not> movingForward
       \<lparr>movingForward = False, stepperZ = \<lparr>pos = 0, tgt = - 1000000\<rparr>, events = []\<rparr> \<and>
   (\<lambda>_. HIGH) ENDSTOP_Z_PIN \<noteq> LOW \<and>
   decision_rule unit_driver (\<lambda>_. HIGH)
      \<lparr>movingForward = False, stepperZ = \<lparr>pos = 0, tgt = - 1000000\<rparr>, events = []\<rparr> =
     \<lparr>movingForward = False, stepperZ = \<lparr>pos = 0, tgt = - 1000000\<rparr>,
      events = [DigitalRead 11]\<rparr> \<and>
   loop unit_driver (\<lambda>_. HIGH)
      \<lparr>movingForward = False, stepperZ = \<lparr>pos = 0, tgt = - 1000000\<rparr>, events = []\<rparr> =
     \<lparr>movingForward = False, stepperZ = \<lparr>pos = - 1, tgt = - 1000000\<rparr>,
      events = [DigitalRead 11, Run]\<rparr>"
  using retract_clear_no_reversal
      [of "\<lparr>movingForward = False, stepperZ = \<lparr>pos = 0, tgt = - 1000000\<rparr>, events = []\<rparr>"
        "\<lambda>_. HIGH" unit_driver]
  by (simp add: run_defs)

text \<open>
  Claim C10. On an iteration that starts with \<open>movingForward\<close> true, reads the end-stop pin
  LOW and finds \<^verbatim>\<open>distanceToGo()\<close> non-zero, neither branch fires: the decision leaves
  \<open>movingForward\<close> and the driver (so its target too) as they were, calls neither
  \<^verbatim>\<open>stop()\<close> nor \<^verbatim>\<open>moveTo\<close>, and the iteration changes the driver by the final
  \<^verbatim>\<open>run()\<close> alone.
\<close>

theorem advancing_ignores_endstop:
  assumes "movingForward s" and "rd ENDSTOP_Z_PIN = LOW"
    and "distanceToGo drv (stepperZ s) \<noteq> 0"
  shows "movingForward (decision_rule drv rd s) = movingForward s \<and>
         stepperZ (decision_rule drv rd s) = stepperZ s \<and>
         targetPosition drv (stepperZ (decision_rule drv rd s)) =
           targetPosition drv (stepperZ s) \<and>
         new_events s (decision_rule drv rd s) = [DigitalRead ENDSTOP_Z_PIN, DistanceToGo] \<and>
         loop drv rd s =
           s\<lparr>stepperZ := run drv (stepperZ s),
              events := events s @ [DigitalRead ENDSTOP_Z_PIN, DistanceToGo, Run]\<rparr>"
  using assms by (simp add: loop_def decision_advance_underway call_def new_events_def)

theorem advancing_ignores_endstop_witness:
  "movingForward
       \<lparr>movingForward = True, stepperZ = \<lparr>pos = 3, tgt = 1000000\<rparr>, events = []\<rparr> \<and>
   (\<lambda>_. LOW) ENDSTOP_Z_PIN = LOW \<and>
   distanceToGo unit_driver \<lparr>pos = 3, tgt = 1000000\<rparr> \<noteq> 0 \<and>
   loop unit_driver (\<lambda>_. LOW)
      \<lparr>movingForward = True, stepperZ = \<lparr>pos = 3, tgt = 1000000\<rparr>, events = []\<rparr> =
     \<lparr>movingForward = True, stepperZ = \<lparr>pos = 4, tgt = 1000000\<rparr>,
      events = [DigitalRead 11, DistanceToGo, Run]\<rparr>"
  using advancing_ignores_endstop
      [of "\<lparr>movingForward = True, stepperZ = \<lparr>pos = 3, tgt = 1000000\<rparr>, events = []\<rparr>"
        "\<lambda>_. LOW" unit_driver]
  by (simp add: run_defs)

text \<open>
  Claim C8. Every iteration of \<^verbatim>\<open>loop\<close>, whichever branch of the decision fired or none,
  calls \<^verbatim>\<open>run()\<close> exactly once, as its last outside call, on the driver as the decision
  left it: the calls of the iteration are those of the decision, none of which is
  \<^verbatim>\<open>run()\<close>, followed by one \<^verbatim>\<open>run()\<close>.
\<close>

theorem run_once_per_iteration:
  "(\<exists>es. events (decision_rule drv rd s) = events s @ es \<and> Run \<notin> set es \<and>
          events (loop drv rd s) = events s @ es @ [Run]) \<and>
   count_list (new_events s (loop drv rd s)) Run = 1 \<and>
   stepperZ (loop drv rd s) = run drv (stepperZ (decision_rule drv rd s)) \<and>
   movingForward (loop drv rd s) = movingForward (decision_rule drv rd s)"
  using decision_events [of drv rd s] by (auto simp add: loop_def call_def new_events_def)

text \<open>
  Claim C9. Over any number of consecutive iterations on each of which the end stop
  reads clear and \<^verbatim>\<open>distanceToGo()\<close> is positive as the iteration starts,
  \<open>movingForward\<close> at the end is what it was at the beginning.
\<close>

theorem noop_ticks_keep_direction:
  assumes "noop_ticks drv rds s"
  shows "movingForward (run_loop drv rds s) = movingForward s"
  using assms
proof (induction rds arbitrary: s)
  case Nil
  then show ?case by simp
next
  case (Cons rd rds)
  from Cons.prems have clear: "rd ENDSTOP_Z_PIN \<noteq> LOW"
    and togo: "0 < sint (distanceToGo drv (stepperZ s))"
    and rest: "noop_ticks drv rds (loop drv rd s)"
    by simp_all
  from togo have "distanceToGo drv (stepperZ s) \<noteq> 0" by auto
  with clear have "movingForward (loop drv rd s) = movingForward s"
    by (rule loop_noop_flag)
  moreover have "movingForward (run_loop drv rds (loop drv rd s)) = movingForward (loop drv rd s)"
    using rest by (rule Cons.IH)
  ultimately show ?case by simp
qed

theorem noop_ticks_keep_direction_witness:
  "noop_ticks unit_driver [\<lambda>_. HIGH, \<lambda>_. HIGH, \<lambda>_. HIGH]
      \<lparr>movingForward = True, stepperZ = \<lparr>pos = 0, tgt = 5\<rparr>, events = []\<rparr> \<and>
   movingForward (run_loop unit_driver [\<lambda>_. HIGH, \<lambda>_. HIGH, \<lambda>_. HIGH]
      \<lparr>movingForward = True, stepperZ = \<lparr>pos = 0, tgt = 5\<rparr>, events = []\<rparr>) = True \<and>
   stepperZ (run_loop unit_driver [\<lambda>_. HIGH, \<lambda>_. HIGH, \<lambda>_. HIGH]
      \<lparr>movingForward = True, stepperZ = \<lparr>pos = 0, tgt = 5\<rparr>, events = []\<rparr>) =
     \<lparr>pos = 3, tgt = 5\<rparr>"
proof -
  have h: "noop_ticks unit_driver [\<lambda>_. HIGH, \<lambda>_. HIGH, \<lambda>_. HIGH]
      \<lparr>movingForward = True, stepperZ = \<lparr>pos = 0, tgt = 5\<rparr>, events = []\<rparr>"
    by (simp add: run_defs)
  show ?thesis
    using h noop_ticks_keep_direction [OF h] by (simp add: run_defs)
qed

section \<open>The direction/target invariant\<close>

text \<open>
  Claim C2. For a driver that meets the contract, in every state the sketch reaches
  (initialisation, then any number of iterations on any pin readings): when
  \<open>movingForward\<close> is true there has been a forward transition and the driver's target is
  the position at the last one plus \<open>MAX_DISTANCE\<close>; when \<open>movingForward\<close> is false the
  target is the position at the last retraction transition, or at initialisation if
  there has been none, minus \<open>MAX_DISTANCE\<close>. Initialisation establishes the relation and
  an iteration started in any state that satisfies it preserves it.
\<close>

theorem direction_target_invariant:
  assumes "driver_contract drv"
  shows "dir_target_inv drv (at_start drv (setup_sketch drv (boot d0)))
           (setup_sketch drv (boot d0)) \<and>
         (\<forall>tr rd s. dir_target_inv drv tr s \<longrightarrow>
            dir_target_inv drv (note_transition drv rd s tr) (loop drv rd s)) \<and>
         (\<forall>rds. dir_target_inv drv
            (transitions_of drv rds (setup_sketch drv (boot d0))
               (at_start drv (setup_sketch drv (boot d0))))
            (program drv d0 rds))"
  using assms
  by (simp add: setup_establishes_inv loop_preserves_inv run_loop_preserves_inv program_def)

theorem direction_target_invariant_witness:
  "driver_contract unit_driver \<and>
   movingForward
     (program unit_driver \<lparr>pos = 42, tgt = 17\<rparr> [\<lambda>_. HIGH, \<lambda>_. LOW, \<lambda>_. HIGH]) \<and>
   transitions_of unit_driver [\<lambda>_. HIGH, \<lambda>_. LOW, \<lambda>_. HIGH]
       (setup_sketch unit_driver (boot \<lparr>pos = 42, tgt = 17\<rparr>))
       (at_start unit_driver (setup_sketch unit_driver (boot \<lparr>pos = 42, tgt = 17\<rparr>))) =
     \<lparr>last_forward = Some (- 1), last_retract = 0\<rparr> \<and>
   targetPosition unit_driver
       (stepperZ
          (program unit_driver \<lparr>pos = 42, tgt = 17\<rparr> [\<lambda>_. HIGH, \<lambda>_. LOW, \<lambda>_. HIGH])) =
     - 1 + MAX_DISTANCE"
proof -
  have tr: "transitions_of unit_driver [\<lambda>_. HIGH, \<lambda>_. LOW, \<lambda>_. HIGH]
       (setup_sketch unit_driver (boot \<lparr>pos = 42, tgt = 17\<rparr>))
       (at_start unit_driver (setup_sketch unit_driver (boot \<lparr>pos = 42, tgt = 17\<rparr>))) =
     \<lparr>last_forward = Some (- 1), last_retract = 0\<rparr>"
    by (simp add: setup_sketch_eq boot_def at_start_def note_transition_def run_defs)
  have fl: "movingForward
     (program unit_driver \<lparr>pos = 42, tgt = 17\<rparr> [\<lambda>_. HIGH, \<lambda>_. LOW, \<lambda>_. HIGH])"
    by (simp add: program_def setup_sketch_eq boot_def run_defs)
  from direction_target_invariant [OF unit_driver_contract, of "\<lparr>pos = 42, tgt = 17\<rparr>"]
  have "dir_target_inv unit_driver
          (transitions_of unit_driver [\<lambda>_. HIGH, \<lambda>_. LOW, \<lambda>_. HIGH]
             (setup_sketch unit_driver (boot \<lparr>pos = 42, tgt = 17\<rparr>))
             (at_start unit_driver (setup_sketch unit_driver (boot \<lparr>pos = 42, tgt = 17\<rparr>))))
          (program unit_driver \<lparr>pos = 42, tgt = 17\<rparr> [\<lambda>_. HIGH, \<lambda>_. LOW, \<lambda>_. HIGH])"
    by blast
  with tr fl unit_driver_contract show ?thesis
    by (simp add: dir_target_inv_def)
qed

section \<open>The unused forward-travel constant\<close>

text \<open>
  Claim C3. \<open>TARGET_MICROSTEPS\<close> is 400 and \<open>MAX_DISTANCE\<close> is 1000000. The outside
  calls of initialisation and of an iteration are listed in full: the only arguments
  the sketch passes to \<^verbatim>\<open>moveTo\<close> are \<open>0 - MAX_DISTANCE\<close> right after
  \<^verbatim>\<open>setCurrentPosition(0)\<close>, the position read after \<^verbatim>\<open>stop()\<close> plus \<open>MAX_DISTANCE\<close>,
  and the position read minus \<open>MAX_DISTANCE\<close>; none is a position plus or minus
  \<open>TARGET_MICROSTEPS\<close>. For a driver that meets the contract, the forward move is given
  \<open>MAX_DISTANCE\<close> steps to go, not 400.
\<close>

theorem target_microsteps_unused:
  "TARGET_MICROSTEPS = 400 \<and> MAX_DISTANCE = 1000000 \<and>
   events (setup_sketch drv (boot d0)) =
     [SerialBegin 9600, SerialPrintln Msg_Init, PinMode ENDSTOP_Z_PIN INPUT,
      SetMaxSpeed MAX_SPEED, SetAcceleration ACCELERATION, SetSpeed CRUISE_SPEED,
      SetCurrentPosition 0, MoveTo (0 - MAX_DISTANCE)] \<and>
   (new_events s (loop drv rd s) =
      [DigitalRead ENDSTOP_Z_PIN, SerialPrintln Msg_Endstop, Stop, CurrentPosition,
       MoveTo (currentPosition drv (stop drv (stepperZ s)) + MAX_DISTANCE), Run] \<or>
    new_events s (loop drv rd s) =
      [DigitalRead ENDSTOP_Z_PIN, DistanceToGo, SerialPrintln Msg_Arrival, CurrentPosition,
       MoveTo (currentPosition drv (stepperZ s) - MAX_DISTANCE), Run] \<or>
    new_events s (loop drv rd s) = [DigitalRead ENDSTOP_Z_PIN, DistanceToGo, Run] \<or>
    new_events s (loop drv rd s) = [DigitalRead ENDSTOP_Z_PIN, Run]) \<and>
   (\<forall>c. c + MAX_DISTANCE \<noteq> c + TARGET_MICROSTEPS \<and>
        c - MAX_DISTANCE \<noteq> c - TARGET_MICROSTEPS) \<and>
   (driver_contract drv \<and> \<not> movingForward s \<and> rd ENDSTOP_Z_PIN = LOW \<longrightarrow>
      distanceToGo drv (stepperZ (decision_rule drv rd s)) = MAX_DISTANCE)"
proof -
  have vals: "TARGET_MICROSTEPS = 400" "MAX_DISTANCE = 1000000"
    by (simp_all add: TARGET_MICROSTEPS_value MAX_DISTANCE_def)
  have init: "events (setup_sketch drv (boot d0)) =
     [SerialBegin 9600, SerialPrintln Msg_Init, PinMode ENDSTOP_Z_PIN INPUT,
      SetMaxSpeed MAX_SPEED, SetAcceleration ACCELERATION, SetSpeed CRUISE_SPEED,
      SetCurrentPosition 0, MoveTo (0 - MAX_DISTANCE)]"
    by (simp add: setup_sketch_eq boot_def)
  have iter: "new_events s (loop drv rd s) =
      [DigitalRead ENDSTOP_Z_PIN, SerialPrintln Msg_Endstop, Stop, CurrentPosition,
       MoveTo (currentPosition drv (stop drv (stepperZ s)) + MAX_DISTANCE), Run] \<or>
    new_events s (loop drv rd s) =
      [DigitalRead ENDSTOP_Z_PIN, DistanceToGo, SerialPrintln Msg_Arrival, CurrentPosition,
       MoveTo (currentPosition drv (stepperZ s) - MAX_DISTANCE), Run] \<or>
    new_events s (loop drv rd s) = [DigitalRead ENDSTOP_Z_PIN, DistanceToGo, Run] \<or>
    new_events s (loop drv rd s) = [DigitalRead ENDSTOP_Z_PIN, Run]"
    by (simp add: new_events_def loop_def decision_rule_def emit_def call_def Let_def)
  have differ: "\<forall>c. c + MAX_DISTANCE \<noteq> c + TARGET_MICROSTEPS \<and>
      c - MAX_DISTANCE \<noteq> c - TARGET_MICROSTEPS"
    by (simp add: vals)
  have far: "distanceToGo drv (stepperZ (decision_rule drv rd s)) = MAX_DISTANCE"
    if "driver_contract drv" "\<not> movingForward s" "rd ENDSTOP_Z_PIN = LOW"
    using that by (simp add: decision_endstop driver_contract_def)
  from vals init iter differ far show ?thesis by blast
qed

theorem target_microsteps_unused_witness:
  "driver_contract unit_driver \<and>
   \<not> movingForward
       \<lparr>movingForward = False, stepperZ = \<lparr>pos = - 7, tgt = - 1000000\<rparr>, events = []\<rparr> \<and>
   (\<lambda>_. LOW) ENDSTOP_Z_PIN = LOW \<and>
   distanceToGo unit_driver
     (stepperZ (decision_rule unit_driver (\<lambda>_. LOW)
        \<lparr>movingForward = False, stepperZ = \<lparr>pos = - 7, tgt = - 1000000\<rparr>, events = []\<rparr>)) =
     1000000 \<and>
   new_events
     \<lparr>movingForward = False, stepperZ = \<lparr>pos = - 7, tgt = - 1000000\<rparr>, events = []\<rparr>
     (loop unit_driver (\<lambda>_. LOW)
        \<lparr>movingForward = False, stepperZ = \<lparr>pos = - 7, tgt = - 1000000\<rparr>, events = []\<rparr>) =
     [DigitalRead 11, SerialPrintln Msg_Endstop, Stop, CurrentPosition, MoveTo 999993, Run]"
  using target_microsteps_unused
      [of unit_driver "\<lparr>pos = 0, tgt = 0\<rparr>"
        "\<lparr>movingForward = False, stepperZ = \<lparr>pos = - 7, tgt = - 1000000\<rparr>, events = []\<rparr>"
        "\<lambda>_. LOW"]
    unit_driver_contract
  by (simp add: run_defs new_events_def)

end
